theory Spec2Isabelle
  imports Main "HOL-Library.Word"
begin

section \<open>Values of the plugin framework\<close>

text \<open>
  A framework value (\<open>types.String\<close>, \<open>types.Bool\<close>, \<open>types.Int64\<close>, \<open>types.Float64\<close>,
  \<open>types.List\<close>) is null, unknown or a known value. The accessors \<open>ValueString\<close>,
  \<open>ValueBool\<close>, \<open>ValueInt64\<close> and \<open>ValueFloat64\<close> return the zero value of the Go type for
  a null or unknown value; the pointer accessors return nil for null only.
\<close>

datatype 'a tfvalue = Null | Unknown | Known 'a

text \<open>
  A \<open>float64\<close> is kept as its 64-bit IEEE-754 pattern: the resources only copy these
  values, and \<open>+0.0\<close> is the all-zero pattern. Go's \<open>int\<close> is 64 bits wide on the
  platforms the provider is built for, so \<open>int(x)\<close> and \<open>int64(x)\<close> are the identity.
\<close>

type_synonym float64 = "64 word"
type_synonym int64 = "64 word"

fun IsNull :: "'a tfvalue \<Rightarrow> bool" where
  "IsNull Null = True"
| "IsNull Unknown = False"
| "IsNull (Known v) = False"

fun IsUnknown :: "'a tfvalue \<Rightarrow> bool" where
  "IsUnknown Null = False"
| "IsUnknown Unknown = True"
| "IsUnknown (Known v) = False"

fun ValueString :: "string tfvalue \<Rightarrow> string" where
  "ValueString (Known s) = s"
| "ValueString Null = []"
| "ValueString Unknown = []"

fun ValueStringPointer :: "string tfvalue \<Rightarrow> string option" where
  "ValueStringPointer Null = None"
| "ValueStringPointer Unknown = Some []"
| "ValueStringPointer (Known s) = Some s"

fun ValueBool :: "bool tfvalue \<Rightarrow> bool" where
  "ValueBool (Known b) = b"
| "ValueBool Null = False"
| "ValueBool Unknown = False"

fun ValueBoolPointer :: "bool tfvalue \<Rightarrow> bool option" where
  "ValueBoolPointer Null = None"
| "ValueBoolPointer Unknown = Some False"
| "ValueBoolPointer (Known b) = Some b"

fun ValueInt64 :: "int64 tfvalue \<Rightarrow> int64" where
  "ValueInt64 (Known n) = n"
| "ValueInt64 Null = 0"
| "ValueInt64 Unknown = 0"

fun ValueFloat64 :: "float64 tfvalue \<Rightarrow> float64" where
  "ValueFloat64 (Known x) = x"
| "ValueFloat64 Null = 0"
| "ValueFloat64 Unknown = 0"

subsection \<open>Diagnostics\<close>

datatype diagnostic = ErrorDiagnostic string string | WarningDiagnostic string string

fun is_error :: "diagnostic \<Rightarrow> bool" where
  "is_error (ErrorDiagnostic summary detail) = True"
| "is_error (WarningDiagnostic summary detail) = False"

fun HasError :: "diagnostic list \<Rightarrow> bool" where
  "HasError [] = False"
| "HasError (d # ds) = (is_error d \<or> HasError ds)"

text \<open>
  \<open>ElementsAs(ctx, &target, false)\<close> into a \<open>[]string\<close>: a known list of strings converts,
  a null list leaves the nil slice, an unknown list is a conversion error and leaves the
  target as it was (nil). The elements of a list are modelled as known strings.
\<close>

fun ElementsAs :: "string list tfvalue \<Rightarrow> diagnostic list \<times> string list" where
  "ElementsAs (Known xs) = ([], xs)"
| "ElementsAs Null = ([], [])"
| "ElementsAs Unknown =
     ([ErrorDiagnostic ''Value Conversion Error'' ''Received unknown value''], [])"

section \<open>Inputs and answers of the remote API\<close>

record ServiceInstanceLimitsUpdateInput =
  LI_ServiceId :: string
  LI_EnvironmentId :: string
  LI_MemoryGB :: "float64 option"
  LI_VCPUs :: "float64 option"

record PrivateNetworkCreateOrGetInput =
  NI_Name :: string
  NI_ProjectId :: string
  NI_EnvironmentId :: string
  NI_Tags :: "string list"

text \<open>A private network as \<open>createOrGetPrivateNetwork\<close> and \<open>getPrivateNetworks\<close> answer it.\<close>

record PrivateNetwork =
  NW_PublicId :: string
  NW_Name :: string
  NW_DnsName :: string
  NW_ProjectId :: string
  NW_EnvironmentId :: string
  NW_Tags :: "string list"

record PrivateNetworkEndpointCreateOrGetInput =
  EI_PrivateNetworkId :: string
  EI_ServiceId :: string
  EI_EnvironmentId :: string
  EI_ServiceName :: string
  EI_Tags :: "string list"

text \<open>The endpoint answered by \<open>createOrGetPrivateNetworkEndpoint\<close> (plain fields).\<close>

record PrivateNetworkEndpointCreated =
  EC_PublicId :: string
  EC_DnsName :: string
  EC_PrivateIps :: "string list"
  EC_Tags :: "string list"

text \<open>The endpoint answered by \<open>getPrivateNetworkEndpoint\<close> (pointer fields).\<close>

record PrivateNetworkEndpoint =
  EP_PublicId :: "string option"
  EP_DnsName :: "string option"
  EP_PrivateIps :: "string option list"
  EP_Tags :: "string option list"

record ServiceSourceInput =
  SS_Image :: "string option"
  SS_Repo :: "string option"

record RegistryCredentialsInput =
  RC_Username :: string
  RC_Password :: string

record ServiceInstanceUpdateInput =
  UI_Source :: "ServiceSourceInput option"
  UI_RegistryCredentials :: "RegistryCredentialsInput option"
  UI_Builder :: "string option"
  UI_BuildCommand :: "string option"
  UI_StartCommand :: "string option"
  UI_PreDeployCommand :: "string option list option"
  UI_HealthcheckPath :: "string option"
  UI_HealthcheckTimeout :: "int64 option"
  UI_RestartPolicyType :: "string option"
  UI_RestartPolicyMaxRetries :: "int64 option"
  UI_SleepApplication :: "bool option"

text \<open>The service instance answered by \<open>getServiceInstanceForResource\<close>.\<close>

record ServiceInstanceSource =
  IS_Image :: "string option"
  IS_Repo :: "string option"

record ServiceInstance =
  IN_Source :: "ServiceInstanceSource option"
  IN_Builder :: string
  IN_BuildCommand :: "string option"
  IN_StartCommand :: "string option"
  IN_HealthcheckPath :: "string option"
  IN_HealthcheckTimeout :: "int64 option"
  IN_RestartPolicyType :: string
  IN_RestartPolicyMaxRetries :: int64
  IN_SleepApplication :: "bool option"

text \<open>The remote calls a lifecycle operation issues, in order.\<close>

datatype remote_call =
    UpdateServiceInstanceLimits ServiceInstanceLimitsUpdateInput
  | CreateOrGetPrivateNetwork PrivateNetworkCreateOrGetInput
  | GetPrivateNetworks string
  | DeletePrivateNetworksForEnvironment string
  | CreateOrGetPrivateNetworkEndpoint PrivateNetworkEndpointCreateOrGetInput
  | GetPrivateNetworkEndpoint "string option" "string option" "string option"
  | DeletePrivateNetworkEndpoint string
  | UpdateServiceInstanceWithEnv string string ServiceInstanceUpdateInput
  | RedeployServiceInstanceWithEnv string string
  | GetServiceInstanceForResource string string

text \<open>
  What a lifecycle operation leaves behind: the diagnostics it added, the state of the
  response (\<open>None\<close> is the null state: nothing created yet, or the resource removed) and
  the remote calls it issued. The state of a response starts as the framework hands it
  over: null for Create, the prior state for Read, Update and Delete. The request's plan
  or state is taken as already decoded into the model.
\<close>

record 'm Response =
  Diagnostics :: "diagnostic list"
  State :: "'m option"
  Calls :: "remote_call list"

section \<open>Service limits\<close>

record ServiceLimitsResourceModel =
  SL_Id :: "string tfvalue"
  SL_ServiceId :: "string tfvalue"
  SL_EnvironmentId :: "string tfvalue"
  SL_MemoryGB :: "float64 tfvalue"
  SL_VCPUs :: "float64 tfvalue"

text \<open>\<open>fmt.Sprintf("%s:%s", service_id, environment_id)\<close>, the composite identifier.\<close>

definition composite_id :: "string \<Rightarrow> string \<Rightarrow> string" where
  "composite_id service_id environment_id = service_id @ '':'' @ environment_id"

definition buildLimitsInput :: "ServiceLimitsResourceModel \<Rightarrow> ServiceInstanceLimitsUpdateInput" where
  "buildLimitsInput data =
     \<lparr> LI_ServiceId = ValueString (SL_ServiceId data),
       LI_EnvironmentId = ValueString (SL_EnvironmentId data),
       LI_MemoryGB = (if \<not> IsNull (SL_MemoryGB data)
                      then Some (ValueFloat64 (SL_MemoryGB data)) else None),
       LI_VCPUs = (if \<not> IsNull (SL_VCPUs data)
                   then Some (ValueFloat64 (SL_VCPUs data)) else None) \<rparr>"

text \<open>
  \<open>err\<close> is the error of \<open>updateServiceInstanceLimits\<close> (\<open>None\<close> for nil); its answer is
  discarded by the code.
\<close>

definition ServiceLimits_Create ::
  "ServiceLimitsResourceModel \<Rightarrow> string option \<Rightarrow> ServiceLimitsResourceModel Response" where
  "ServiceLimits_Create data err =
     (let input = buildLimitsInput data in
      case err of
        Some e \<Rightarrow>
          \<lparr> Diagnostics = [ErrorDiagnostic ''Client Error''
                             (''Unable to set service limits, got error: '' @ e)],
            State = None,
            Calls = [UpdateServiceInstanceLimits input] \<rparr>
      | None \<Rightarrow>
          \<lparr> Diagnostics = [],
            State = Some (data\<lparr> SL_Id := Known (composite_id (ValueString (SL_ServiceId data))
                                                   (ValueString (SL_EnvironmentId data))) \<rparr>),
            Calls = [UpdateServiceInstanceLimits input] \<rparr>)"

definition ServiceLimits_Read ::
  "ServiceLimitsResourceModel \<Rightarrow> ServiceLimitsResourceModel Response" where
  "ServiceLimits_Read data = \<lparr> Diagnostics = [], State = Some data, Calls = [] \<rparr>"

definition ServiceLimits_Update ::
  "ServiceLimitsResourceModel \<Rightarrow> ServiceLimitsResourceModel \<Rightarrow> string option
     \<Rightarrow> ServiceLimitsResourceModel Response" where
  "ServiceLimits_Update data prior err =
     (let input = buildLimitsInput data in
      case err of
        Some e \<Rightarrow>
          \<lparr> Diagnostics = [ErrorDiagnostic ''Client Error''
                             (''Unable to update service limits, got error: '' @ e)],
            State = Some prior,
            Calls = [UpdateServiceInstanceLimits input] \<rparr>
      | None \<Rightarrow>
          \<lparr> Diagnostics = [], State = Some data,
            Calls = [UpdateServiceInstanceLimits input] \<rparr>)"

text \<open>Delete only writes a trace line: it reads nothing and touches nothing.\<close>

definition ServiceLimits_Delete ::
  "ServiceLimitsResourceModel \<Rightarrow> ServiceLimitsResourceModel Response" where
  "ServiceLimits_Delete prior = \<lparr> Diagnostics = [], State = Some prior, Calls = [] \<rparr>"

text \<open>
  \<open>resource.ImportStatePassthroughID(ctx, path.Root("id"), req, resp)\<close>: the state of an
  import starts empty and gets the request's id, as it is, under \<open>id\<close>.
\<close>

definition ServiceLimits_ImportState :: "string \<Rightarrow> ServiceLimitsResourceModel Response" where
  "ServiceLimits_ImportState req_id =
     \<lparr> Diagnostics = [],
       State = Some \<lparr> SL_Id = Known req_id, SL_ServiceId = Null, SL_EnvironmentId = Null,
                      SL_MemoryGB = Null, SL_VCPUs = Null \<rparr>,
       Calls = [] \<rparr>"

section \<open>Private network\<close>

record PrivateNetworkResourceModel =
  PN_Id :: "string tfvalue"
  PN_Name :: "string tfvalue"
  PN_ProjectId :: "string tfvalue"
  PN_EnvironmentId :: "string tfvalue"
  PN_DnsName :: "string tfvalue"
  PN_Tags :: "string list tfvalue"

subsection \<open>Schema\<close>

datatype plan_modifier = RequiresReplace | UseStateForUnknown

record attribute =
  Required :: bool
  Optional :: bool
  Computed :: bool
  PlanModifiers :: "plan_modifier list"

text \<open>
  The attributes of \<open>PrivateNetworkResource.Schema\<close>, in the order of the source, each
  with its \<open>Required\<close>, \<open>Optional\<close> and \<open>Computed\<close> flags and its plan modifiers
  (descriptions, validators and element types are left out).
\<close>

definition PrivateNetwork_Schema :: "(string \<times> attribute) list" where
  "PrivateNetwork_Schema =
     [ (''id'', \<lparr> Required = False, Optional = False, Computed = True,
                  PlanModifiers = [UseStateForUnknown] \<rparr>),
       (''name'', \<lparr> Required = True, Optional = False, Computed = False,
                    PlanModifiers = [RequiresReplace] \<rparr>),
       (''project_id'', \<lparr> Required = True, Optional = False, Computed = False,
                          PlanModifiers = [RequiresReplace] \<rparr>),
       (''environment_id'', \<lparr> Required = True, Optional = False, Computed = False,
                              PlanModifiers = [RequiresReplace] \<rparr>),
       (''dns_name'', \<lparr> Required = False, Optional = False, Computed = True,
                        PlanModifiers = [] \<rparr>),
       (''tags'', \<lparr> Required = False, Optional = True, Computed = False,
                    PlanModifiers = [] \<rparr>) ]"

text \<open>An attribute the configuration can set: required or optional.\<close>

definition configurable :: "attribute \<Rightarrow> bool" where
  "configurable a = (Required a \<or> Optional a)"

definition requires_replace :: "attribute \<Rightarrow> bool" where
  "requires_replace a = (RequiresReplace \<in> set (PlanModifiers a))"

subsection \<open>Lifecycle\<close>

text \<open>
  \<open>result\<close> is what \<open>createOrGetPrivateNetwork\<close> returns: \<open>Inl\<close> the error, \<open>Inr\<close> the
  network. \<open>types.ListValueFrom\<close> of a \<open>[]string\<close> into a list of strings adds no
  diagnostic.
\<close>

definition PrivateNetwork_Create ::
  "PrivateNetworkResourceModel \<Rightarrow> string + PrivateNetwork
     \<Rightarrow> PrivateNetworkResourceModel Response" where
  "PrivateNetwork_Create data result =
     (let (ds, tags) = (if \<not> IsNull (PN_Tags data) then ElementsAs (PN_Tags data)
                        else ([], [])) in
      if HasError ds then \<lparr> Diagnostics = ds, State = None, Calls = [] \<rparr>
      else
        let input = \<lparr> NI_Name = ValueString (PN_Name data),
                      NI_ProjectId = ValueString (PN_ProjectId data),
                      NI_EnvironmentId = ValueString (PN_EnvironmentId data),
                      NI_Tags = tags \<rparr> in
        case result of
          Inl e \<Rightarrow>
            \<lparr> Diagnostics = ds @ [ErrorDiagnostic ''Client Error''
                                    (''Unable to create private network, got error: '' @ e)],
              State = None,
              Calls = [CreateOrGetPrivateNetwork input] \<rparr>
        | Inr network \<Rightarrow>
            let data1 = data\<lparr> PN_Id := Known (NW_PublicId network),
                              PN_DnsName := Known (NW_DnsName network) \<rparr>;
                data2 = (if length (NW_Tags network) > 0
                         then data1\<lparr> PN_Tags := Known (NW_Tags network) \<rparr> else data1) in
            \<lparr> Diagnostics = ds, State = Some data2,
              Calls = [CreateOrGetPrivateNetwork input] \<rparr>)"

text \<open>
  The loop of Read over the listed networks stops at the first one whose public id is the
  stored id: that is \<open>find\<close>.
\<close>

definition PrivateNetwork_Read ::
  "PrivateNetworkResourceModel \<Rightarrow> string + PrivateNetwork list
     \<Rightarrow> PrivateNetworkResourceModel Response" where
  "PrivateNetwork_Read data result =
     (let calls = [GetPrivateNetworks (ValueString (PN_EnvironmentId data))] in
      case result of
        Inl e \<Rightarrow>
          \<lparr> Diagnostics = [ErrorDiagnostic ''Client Error''
                             (''Unable to read private networks, got error: '' @ e)],
            State = Some data, Calls = calls \<rparr>
      | Inr networks \<Rightarrow>
          (case find (\<lambda>network. NW_PublicId network = ValueString (PN_Id data)) networks of
             None \<Rightarrow> \<lparr> Diagnostics = [], State = None, Calls = calls \<rparr>
           | Some network \<Rightarrow>
               let data1 = data\<lparr> PN_Name := Known (NW_Name network),
                                 PN_DnsName := Known (NW_DnsName network),
                                 PN_ProjectId := Known (NW_ProjectId network),
                                 PN_EnvironmentId := Known (NW_EnvironmentId network) \<rparr>;
                   data2 = (if length (NW_Tags network) > 0
                            then data1\<lparr> PN_Tags := Known (NW_Tags network) \<rparr> else data1) in
               \<lparr> Diagnostics = [], State = Some data2, Calls = calls \<rparr>))"

text \<open>Update reads neither the plan nor the state; \<open>prior\<close> is the state handed over.\<close>

definition PrivateNetwork_Update ::
  "PrivateNetworkResourceModel \<Rightarrow> PrivateNetworkResourceModel
     \<Rightarrow> PrivateNetworkResourceModel Response" where
  "PrivateNetwork_Update plan prior =
     \<lparr> Diagnostics = [ErrorDiagnostic ''Update Not Supported''
                        ''Private networks cannot be updated. Changes require replacement.''],
       State = Some prior, Calls = [] \<rparr>"

definition PrivateNetwork_Delete ::
  "PrivateNetworkResourceModel \<Rightarrow> string option \<Rightarrow> PrivateNetworkResourceModel Response" where
  "PrivateNetwork_Delete data err =
     (let calls = [DeletePrivateNetworksForEnvironment (ValueString (PN_EnvironmentId data))] in
      case err of
        Some e \<Rightarrow>
          \<lparr> Diagnostics = [ErrorDiagnostic ''Client Error''
                             (''Unable to delete private network, got error: '' @ e)],
            State = Some data, Calls = calls \<rparr>
      | None \<Rightarrow> \<lparr> Diagnostics = [], State = Some data, Calls = calls \<rparr>)"

section \<open>Private network endpoint\<close>

record PrivateNetworkEndpointResourceModel =
  PE_Id :: "string tfvalue"
  PE_PrivateNetworkId :: "string tfvalue"
  PE_ServiceId :: "string tfvalue"
  PE_EnvironmentId :: "string tfvalue"
  PE_ServiceName :: "string tfvalue"
  PE_DnsName :: "string tfvalue"
  PE_PrivateIps :: "string list tfvalue"
  PE_Tags :: "string list tfvalue"

text \<open>The loops of Read that copy the non-nil elements of a \<open>[]*string\<close>.\<close>

fun non_nil :: "string option list \<Rightarrow> string list" where
  "non_nil [] = []"
| "non_nil (None # ps) = non_nil ps"
| "non_nil (Some s # ps) = s # non_nil ps"

definition PrivateNetworkEndpoint_Create ::
  "PrivateNetworkEndpointResourceModel \<Rightarrow> string + PrivateNetworkEndpointCreated
     \<Rightarrow> PrivateNetworkEndpointResourceModel Response" where
  "PrivateNetworkEndpoint_Create data result =
     (let (ds, tags) = (if \<not> IsNull (PE_Tags data) then ElementsAs (PE_Tags data)
                        else ([], [])) in
      if HasError ds then \<lparr> Diagnostics = ds, State = None, Calls = [] \<rparr>
      else
        let input = \<lparr> EI_PrivateNetworkId = ValueString (PE_PrivateNetworkId data),
                      EI_ServiceId = ValueString (PE_ServiceId data),
                      EI_EnvironmentId = ValueString (PE_EnvironmentId data),
                      EI_ServiceName = ValueString (PE_ServiceName data),
                      EI_Tags = tags \<rparr> in
        case result of
          Inl e \<Rightarrow>
            \<lparr> Diagnostics = ds @ [ErrorDiagnostic ''Client Error''
                  (''Unable to create private network endpoint, got error: '' @ e)],
              State = None,
              Calls = [CreateOrGetPrivateNetworkEndpoint input] \<rparr>
        | Inr endpoint \<Rightarrow>
            let data1 = data\<lparr> PE_Id := Known (EC_PublicId endpoint),
                              PE_DnsName := Known (EC_DnsName endpoint) \<rparr>;
                data2 = (if length (EC_PrivateIps endpoint) > 0
                         then data1\<lparr> PE_PrivateIps := Known (EC_PrivateIps endpoint) \<rparr>
                         else data1\<lparr> PE_PrivateIps := Null \<rparr>);
                data3 = (if length (EC_Tags endpoint) > 0
                         then data2\<lparr> PE_Tags := Known (EC_Tags endpoint) \<rparr> else data2) in
            \<lparr> Diagnostics = ds, State = Some data3,
              Calls = [CreateOrGetPrivateNetworkEndpoint input] \<rparr>)"

text \<open>
  \<open>result\<close> is what \<open>getPrivateNetworkEndpoint\<close> returns: \<open>Inl\<close> the error, \<open>Inr None\<close> a
  nil endpoint, \<open>Inr (Some endpoint)\<close> the endpoint.
\<close>

definition PrivateNetworkEndpoint_Read ::
  "PrivateNetworkEndpointResourceModel \<Rightarrow> string + PrivateNetworkEndpoint option
     \<Rightarrow> PrivateNetworkEndpointResourceModel Response" where
  "PrivateNetworkEndpoint_Read data result =
     (let calls = [GetPrivateNetworkEndpoint (Some (ValueString (PE_EnvironmentId data)))
                     (Some (ValueString (PE_PrivateNetworkId data)))
                     (Some (ValueString (PE_ServiceId data)))] in
      case result of
        Inl e \<Rightarrow>
          \<lparr> Diagnostics = [ErrorDiagnostic ''Client Error''
                (''Unable to read private network endpoint, got error: '' @ e)],
            State = Some data, Calls = calls \<rparr>
      | Inr None \<Rightarrow> \<lparr> Diagnostics = [], State = None, Calls = calls \<rparr>
      | Inr (Some endpoint) \<Rightarrow>
          let data1 = (case EP_PublicId endpoint of
                         Some i \<Rightarrow> data\<lparr> PE_Id := Known i \<rparr> | None \<Rightarrow> data);
              data2 = (case EP_DnsName endpoint of
                         Some n \<Rightarrow> data1\<lparr> PE_DnsName := Known n \<rparr> | None \<Rightarrow> data1);
              data3 = (if length (EP_PrivateIps endpoint) > 0
                       then data2\<lparr> PE_PrivateIps := Known (non_nil (EP_PrivateIps endpoint)) \<rparr>
                       else data2\<lparr> PE_PrivateIps := Null \<rparr>);
              data4 = (if length (EP_Tags endpoint) > 0
                       then data3\<lparr> PE_Tags := Known (non_nil (EP_Tags endpoint)) \<rparr>
                       else data3) in
          \<lparr> Diagnostics = [], State = Some data4, Calls = calls \<rparr>)"

definition PrivateNetworkEndpoint_Update ::
  "PrivateNetworkEndpointResourceModel \<Rightarrow> PrivateNetworkEndpointResourceModel
     \<Rightarrow> PrivateNetworkEndpointResourceModel Response" where
  "PrivateNetworkEndpoint_Update plan prior =
     \<lparr> Diagnostics = [ErrorDiagnostic ''Update Not Supported''
          ''Private network endpoints cannot be updated. Changes require replacement.''],
       State = Some prior, Calls = [] \<rparr>"

definition PrivateNetworkEndpoint_Delete ::
  "PrivateNetworkEndpointResourceModel \<Rightarrow> string option
     \<Rightarrow> PrivateNetworkEndpointResourceModel Response" where
  "PrivateNetworkEndpoint_Delete data err =
     (let calls = [DeletePrivateNetworkEndpoint (ValueString (PE_Id data))] in
      case err of
        Some e \<Rightarrow>
          \<lparr> Diagnostics = [ErrorDiagnostic ''Client Error''
                (''Unable to delete private network endpoint, got error: '' @ e)],
            State = Some data, Calls = calls \<rparr>
      | None \<Rightarrow> \<lparr> Diagnostics = [], State = Some data, Calls = calls \<rparr>)"

section \<open>Service instance\<close>

text \<open>
  \<open>resource_service_instance.go\<close> holds the resource twice; the model follows the second,
  fuller text (with the build, health check, restart and sleep attributes), whose first
  eight attributes and whose Create, Read, Update and Delete are those of the first.
\<close>

record ServiceInstanceResourceModel =
  SI_Id :: "string tfvalue"
  SI_ServiceId :: "string tfvalue"
  SI_EnvironmentId :: "string tfvalue"
  SI_SourceImage :: "string tfvalue"
  SI_SourceRepo :: "string tfvalue"
  SI_RegistryCredentialsUser :: "string tfvalue"
  SI_RegistryCredentialsPass :: "string tfvalue"
  SI_Redeploy :: "bool tfvalue"
  SI_Builder :: "string tfvalue"
  SI_BuildCommand :: "string tfvalue"
  SI_StartCommand :: "string tfvalue"
  SI_PreDeployCommand :: "string list tfvalue"
  SI_HealthcheckPath :: "string tfvalue"
  SI_HealthcheckTimeout :: "int64 tfvalue"
  SI_RestartPolicyType :: "string tfvalue"
  SI_RestartPolicyMaxRetries :: "int64 tfvalue"
  SI_SleepApplication :: "bool tfvalue"

text \<open>
  The diagnostics of \<open>ElementsAs\<close> are dropped by \<open>buildUpdateInput\<close>; every element of
  the payload's command list is the address of a converted string, hence non-nil.
\<close>

definition buildUpdateInput :: "ServiceInstanceResourceModel \<Rightarrow> ServiceInstanceUpdateInput" where
  "buildUpdateInput data =
     \<lparr> UI_Source =
         (if \<not> IsNull (SI_SourceImage data) \<or> \<not> IsNull (SI_SourceRepo data)
          then Some \<lparr> SS_Image = (if \<not> IsNull (SI_SourceImage data)
                                    then ValueStringPointer (SI_SourceImage data) else None),
                      SS_Repo = (if \<not> IsNull (SI_SourceRepo data)
                                   then ValueStringPointer (SI_SourceRepo data) else None) \<rparr>
          else None),
       UI_RegistryCredentials =
         (if \<not> IsNull (SI_RegistryCredentialsUser data) \<and> \<not> IsNull (SI_RegistryCredentialsPass data)
          then Some \<lparr> RC_Username = ValueString (SI_RegistryCredentialsUser data),
                      RC_Password = ValueString (SI_RegistryCredentialsPass data) \<rparr>
          else None),
       UI_Builder =
         (if \<not> IsNull (SI_Builder data) then Some (ValueString (SI_Builder data)) else None),
       UI_BuildCommand =
         (if \<not> IsNull (SI_BuildCommand data)
          then ValueStringPointer (SI_BuildCommand data) else None),
       UI_StartCommand =
         (if \<not> IsNull (SI_StartCommand data)
          then ValueStringPointer (SI_StartCommand data) else None),
       UI_PreDeployCommand =
         (if \<not> IsNull (SI_PreDeployCommand data)
          then Some (map Some (snd (ElementsAs (SI_PreDeployCommand data)))) else None),
       UI_HealthcheckPath =
         (if \<not> IsNull (SI_HealthcheckPath data)
          then ValueStringPointer (SI_HealthcheckPath data) else None),
       UI_HealthcheckTimeout =
         (if \<not> IsNull (SI_HealthcheckTimeout data)
          then Some (ValueInt64 (SI_HealthcheckTimeout data)) else None),
       UI_RestartPolicyType =
         (if \<not> IsNull (SI_RestartPolicyType data)
          then Some (ValueString (SI_RestartPolicyType data)) else None),
       UI_RestartPolicyMaxRetries =
         (if \<not> IsNull (SI_RestartPolicyMaxRetries data)
          then Some (ValueInt64 (SI_RestartPolicyMaxRetries data)) else None),
       UI_SleepApplication =
         (if \<not> IsNull (SI_SleepApplication data)
          then ValueBoolPointer (SI_SleepApplication data) else None) \<rparr>"

text \<open>A nil pointer of the answer becomes a null value, any other a known one.\<close>

fun from_pointer :: "'a option \<Rightarrow> 'a tfvalue" where
  "from_pointer None = Null"
| "from_pointer (Some v) = Known v"

text \<open>
  \<open>result\<close> is what \<open>getServiceInstanceForResource\<close> returns. \<open>readServiceInstance\<close>
  returns the error (\<open>Inl\<close>) or the model it has updated in place (\<open>Inr\<close>).
\<close>

definition readServiceInstance ::
  "ServiceInstanceResourceModel \<Rightarrow> string + ServiceInstance
     \<Rightarrow> string + ServiceInstanceResourceModel" where
  "readServiceInstance data result =
     (case result of
        Inl e \<Rightarrow> Inl e
      | Inr instance \<Rightarrow>
          let data1 = (case IN_Source instance of
                         Some source \<Rightarrow>
                           data\<lparr> SI_SourceImage := from_pointer (IS_Image source),
                                 SI_SourceRepo := from_pointer (IS_Repo source) \<rparr>
                       | None \<Rightarrow> data);
              data2 = data1\<lparr> SI_Builder := Known (IN_Builder instance),
                              SI_BuildCommand := from_pointer (IN_BuildCommand instance),
                              SI_StartCommand := from_pointer (IN_StartCommand instance) \<rparr>;
              data3 = (if IsUnknown (SI_PreDeployCommand data2)
                       then data2\<lparr> SI_PreDeployCommand := Null \<rparr> else data2) in
          Inr (data3\<lparr> SI_HealthcheckPath := from_pointer (IN_HealthcheckPath instance),
                       SI_HealthcheckTimeout := from_pointer (IN_HealthcheckTimeout instance),
                       SI_RestartPolicyType := Known (IN_RestartPolicyType instance),
                       SI_RestartPolicyMaxRetries := Known (IN_RestartPolicyMaxRetries instance),
                       SI_SleepApplication := from_pointer (IN_SleepApplication instance) \<rparr>))"

text \<open>
  Create and Update run the same three remote steps: update the instance, redeploy when
  \<open>redeploy\<close> is set, read the instance back. \<open>update_err\<close> and \<open>redeploy_err\<close> are the
  errors of the first two calls (the redeploy's is looked at only when the call is made),
  \<open>read_result\<close> is what the third returns. Create sets the composite id before the read.
\<close>

definition ServiceInstance_Create ::
  "ServiceInstanceResourceModel \<Rightarrow> string option \<Rightarrow> string option \<Rightarrow> string + ServiceInstance
     \<Rightarrow> ServiceInstanceResourceModel Response" where
  "ServiceInstance_Create data update_err redeploy_err read_result =
     (let env = ValueString (SI_EnvironmentId data);
          svc = ValueString (SI_ServiceId data);
          calls1 = [UpdateServiceInstanceWithEnv env svc (buildUpdateInput data)] in
      case update_err of
        Some e \<Rightarrow>
          \<lparr> Diagnostics = [ErrorDiagnostic ''Client Error''
                (''Unable to update service instance, got error: '' @ e)],
            State = None, Calls = calls1 \<rparr>
      | None \<Rightarrow>
          (case (if ValueBool (SI_Redeploy data) then redeploy_err else None) of
             Some e \<Rightarrow>
               \<lparr> Diagnostics = [ErrorDiagnostic ''Client Error''
                     (''Unable to redeploy service instance, got error: '' @ e)],
                 State = None,
                 Calls = calls1 @ [RedeployServiceInstanceWithEnv env svc] \<rparr>
           | None \<Rightarrow>
               let calls2 = calls1 @ (if ValueBool (SI_Redeploy data)
                                      then [RedeployServiceInstanceWithEnv env svc] else []);
                   data1 = data\<lparr> SI_Id := Known (composite_id (ValueString (SI_ServiceId data))
                                                    (ValueString (SI_EnvironmentId data))) \<rparr>;
                   calls3 = calls2 @ [GetServiceInstanceForResource
                                        (ValueString (SI_EnvironmentId data1))
                                        (ValueString (SI_ServiceId data1))] in
               (case readServiceInstance data1 read_result of
                  Inl e \<Rightarrow>
                    \<lparr> Diagnostics = [ErrorDiagnostic ''Client Error''
                          (''Unable to read service instance, got error: '' @ e)],
                      State = None, Calls = calls3 \<rparr>
                | Inr data2 \<Rightarrow>
                    \<lparr> Diagnostics = [], State = Some data2, Calls = calls3 \<rparr>)))"

definition ServiceInstance_Update ::
  "ServiceInstanceResourceModel \<Rightarrow> ServiceInstanceResourceModel
     \<Rightarrow> string option \<Rightarrow> string option \<Rightarrow> string + ServiceInstance
     \<Rightarrow> ServiceInstanceResourceModel Response" where
  "ServiceInstance_Update data prior update_err redeploy_err read_result =
     (let env = ValueString (SI_EnvironmentId data);
          svc = ValueString (SI_ServiceId data);
          calls1 = [UpdateServiceInstanceWithEnv env svc (buildUpdateInput data)] in
      case update_err of
        Some e \<Rightarrow>
          \<lparr> Diagnostics = [ErrorDiagnostic ''Client Error''
                (''Unable to update service instance, got error: '' @ e)],
            State = Some prior, Calls = calls1 \<rparr>
      | None \<Rightarrow>
          (case (if ValueBool (SI_Redeploy data) then redeploy_err else None) of
             Some e \<Rightarrow>
               \<lparr> Diagnostics = [ErrorDiagnostic ''Client Error''
                     (''Unable to redeploy service instance, got error: '' @ e)],
                 State = Some prior,
                 Calls = calls1 @ [RedeployServiceInstanceWithEnv env svc] \<rparr>
           | None \<Rightarrow>
               let calls2 = calls1 @ (if ValueBool (SI_Redeploy data)
                                      then [RedeployServiceInstanceWithEnv env svc] else []);
                   calls3 = calls2 @ [GetServiceInstanceForResource
                                        (ValueString (SI_EnvironmentId data))
                                        (ValueString (SI_ServiceId data))] in
               (case readServiceInstance data read_result of
                  Inl e \<Rightarrow>
                    \<lparr> Diagnostics = [ErrorDiagnostic ''Client Error''
                          (''Unable to read service instance, got error: '' @ e)],
                      State = Some prior, Calls = calls3 \<rparr>
                | Inr data2 \<Rightarrow>
                    \<lparr> Diagnostics = [], State = Some data2, Calls = calls3 \<rparr>)))"

definition ServiceInstance_Read ::
  "ServiceInstanceResourceModel \<Rightarrow> string + ServiceInstance
     \<Rightarrow> ServiceInstanceResourceModel Response" where
  "ServiceInstance_Read data read_result =
     (let calls = [GetServiceInstanceForResource (ValueString (SI_EnvironmentId data))
                     (ValueString (SI_ServiceId data))] in
      case readServiceInstance data read_result of
        Inl e \<Rightarrow>
          \<lparr> Diagnostics = [ErrorDiagnostic ''Client Error''
                (''Unable to read service instance, got error: '' @ e)],
            State = Some data, Calls = calls \<rparr>
      | Inr data1 \<Rightarrow> \<lparr> Diagnostics = [], State = Some data1, Calls = calls \<rparr>)"

text \<open>Delete only writes a trace line: it reads nothing and touches nothing.\<close>

definition ServiceInstance_Delete ::
  "ServiceInstanceResourceModel \<Rightarrow> ServiceInstanceResourceModel Response" where
  "ServiceInstance_Delete prior = \<lparr> Diagnostics = [], State = Some prior, Calls = [] \<rparr>"

section \<open>Example configurations\<close>

text \<open>
  The configurations of the schema documentation, used to run the operations on concrete
  input. The instance leaves \<open>builder\<close>, \<open>restart_policy_type\<close> and
  \<open>restart_policy_max_retries\<close> unset: they are optional and computed, so the plan of a
  create holds them as unknown, like \<open>id\<close>.
\<close>

definition limits_example :: ServiceLimitsResourceModel where
  "limits_example =
     \<lparr> SL_Id = Unknown,
       SL_ServiceId = Known ''5f0c1a52-3b1e-4c8e-9d61-0a2b7c3d4e5f'',
       SL_EnvironmentId = Known ''a1b2c3d4-0000-4000-8000-123456789abc'',
       SL_MemoryGB = Known 0x4000000000000000,
       SL_VCPUs = Null \<rparr>"

definition network_example :: PrivateNetworkResourceModel where
  "network_example =
     \<lparr> PN_Id = Known ''pn-1'',
       PN_Name = Known ''internal'',
       PN_ProjectId = Known ''0e9d8c7b-1111-4222-8333-444455556666'',
       PN_EnvironmentId = Known ''a1b2c3d4-0000-4000-8000-123456789abc'',
       PN_DnsName = Known ''internal.railway.internal'',
       PN_Tags = Known [''production'', ''internal''] \<rparr>"

definition listed_network :: "string \<Rightarrow> string list \<Rightarrow> PrivateNetwork" where
  "listed_network public_id tags =
     \<lparr> NW_PublicId = public_id, NW_Name = ''internal'',
       NW_DnsName = ''internal.railway.internal'',
       NW_ProjectId = ''0e9d8c7b-1111-4222-8333-444455556666'',
       NW_EnvironmentId = ''a1b2c3d4-0000-4000-8000-123456789abc'',
       NW_Tags = tags \<rparr>"

definition endpoint_example :: PrivateNetworkEndpointResourceModel where
  "endpoint_example =
     \<lparr> PE_Id = Known ''ep-1'',
       PE_PrivateNetworkId = Known ''pn-1'',
       PE_ServiceId = Known ''5f0c1a52-3b1e-4c8e-9d61-0a2b7c3d4e5f'',
       PE_EnvironmentId = Known ''a1b2c3d4-0000-4000-8000-123456789abc'',
       PE_ServiceName = Known ''api'',
       PE_DnsName = Known ''api.internal.railway.internal'',
       PE_PrivateIps = Null,
       PE_Tags = Known [''api'', ''backend''] \<rparr>"

definition instance_example :: ServiceInstanceResourceModel where
  "instance_example =
     \<lparr> SI_Id = Unknown,
       SI_ServiceId = Known ''5f0c1a52-3b1e-4c8e-9d61-0a2b7c3d4e5f'',
       SI_EnvironmentId = Known ''a1b2c3d4-0000-4000-8000-123456789abc'',
       SI_SourceImage = Known ''ghcr.io/myorg/api:staging'',
       SI_SourceRepo = Null,
       SI_RegistryCredentialsUser = Known ''user'',
       SI_RegistryCredentialsPass = Known ''token'',
       SI_Redeploy = Known True,
       SI_Builder = Unknown,
       SI_BuildCommand = Null,
       SI_StartCommand = Null,
       SI_PreDeployCommand = Known [''npm run db:migrate''],
       SI_HealthcheckPath = Known ''/health'',
       SI_HealthcheckTimeout = Known 30,
       SI_RestartPolicyType = Unknown,
       SI_RestartPolicyMaxRetries = Unknown,
       SI_SleepApplication = Known True \<rparr>"

definition observed_instance :: ServiceInstance where
  "observed_instance =
     \<lparr> IN_Source = Some \<lparr> IS_Image = Some ''ghcr.io/myorg/api:staging'', IS_Repo = None \<rparr>,
       IN_Builder = ''RAILPACK'',
       IN_BuildCommand = None,
       IN_StartCommand = None,
       IN_HealthcheckPath = Some ''/health'',
       IN_HealthcheckTimeout = Some 30,
       IN_RestartPolicyType = ''ON_FAILURE'',
       IN_RestartPolicyMaxRetries = 10,
       IN_SleepApplication = Some True \<rparr>"

section \<open>Composite identifiers\<close>

lemma takeWhile_composite_id:
  "CHR '':'' \<notin> set s \<Longrightarrow> takeWhile (\<lambda>c. c \<noteq> CHR '':'') (composite_id s e) = s"
  by (auto simp add: composite_id_def takeWhile_tail)

lemma composite_id_inject:
  assumes "CHR '':'' \<notin> set s" and "CHR '':'' \<notin> set s'"
    and "composite_id s e = composite_id s' e'"
  shows "s = s' \<and> e = e'"
proof -
  have "takeWhile (\<lambda>c. c \<noteq> CHR '':'') (composite_id s e)
        = takeWhile (\<lambda>c. c \<noteq> CHR '':'') (composite_id s' e')"
    using assms(3) by simp
  then have "s = s'"
    using assms(1,2) by (simp add: takeWhile_composite_id)
  with assms(3) show ?thesis
    by (simp add: composite_id_def)
qed

lemma readServiceInstance_Id:
  "readServiceInstance data (Inr observed) = Inr data' \<Longrightarrow> SI_Id data' = SI_Id data"
  by (auto simp add: readServiceInstance_def Let_def split: option.splits if_splits)

text \<open>
  Import does not split the token: the imported state holds it under \<open>id\<close> and holds
  no component.
\<close>

lemma ServiceLimits_ImportState_passes_token_through:
  "map_option SL_Id (State (ServiceLimits_ImportState (composite_id service_id environment_id)))
     = Some (Known (composite_id service_id environment_id))
   \<and> map_option SL_ServiceId
         (State (ServiceLimits_ImportState (composite_id service_id environment_id))) = Some Null
   \<and> map_option SL_EnvironmentId
         (State (ServiceLimits_ImportState (composite_id service_id environment_id))) = Some Null"
  by (simp add: ServiceLimits_ImportState_def)

text \<open>
  C1, as stated, fails: over all strings the composite identifier is not injective. The
  plans with \<open>(service_id, environment_id) = ("a:b", "c")\<close> and \<open>("a", "b:c")\<close> differ, and
  Create of the service limits writes the same id \<open>"a:b:c"\<close> for both.
\<close>

theorem composite_identity_collision_counterexample:
  "(Known ''a:b'', Known ''c'') \<noteq> (Known ''a'', Known ''b:c'' :: string tfvalue)
   \<and> map_option SL_Id (State (ServiceLimits_Create
        (limits_example\<lparr> SL_ServiceId := Known ''a:b'', SL_EnvironmentId := Known ''c'' \<rparr>) None))
     = map_option SL_Id (State (ServiceLimits_Create
        (limits_example\<lparr> SL_ServiceId := Known ''a'', SL_EnvironmentId := Known ''b:c'' \<rparr>) None))
   \<and> composite_id ''a:b'' ''c'' = composite_id ''a'' ''b:c''"
  by (simp add: ServiceLimits_Create_def composite_id_def)

text \<open>
  C1, amended: the id that a successful Create of the service limits and of the service
  instance writes is \<open>service_id:environment_id\<close>, and this encoding is injective on the
  tuples whose service id holds no \<open>:\<close> (the schema admits only UUIDs for both
  components): two such tuples with the same token are equal, so the token determines
  the tuple.
\<close>

theorem composite_identity_injective_without_delimiter:
  "(CHR '':'' \<notin> set service_id \<and> CHR '':'' \<notin> set service_id'
      \<and> composite_id service_id environment_id = composite_id service_id' environment_id'
      \<longrightarrow> service_id = service_id' \<and> environment_id = environment_id')
   \<and> map_option SL_Id (State (ServiceLimits_Create limits None))
       = Some (Known (composite_id (ValueString (SL_ServiceId limits))
                                   (ValueString (SL_EnvironmentId limits))))
   \<and> map_option SI_Id (State (ServiceInstance_Create inst None None (Inr observed)))
       = Some (Known (composite_id (ValueString (SI_ServiceId inst))
                                   (ValueString (SI_EnvironmentId inst))))"
proof -
  let ?id = "composite_id (ValueString (SI_ServiceId inst)) (ValueString (SI_EnvironmentId inst))"
  have "\<exists>data'. readServiceInstance (inst\<lparr> SI_Id := Known ?id \<rparr>) (Inr observed) = Inr data'"
    by (simp add: readServiceInstance_def Let_def)
  then obtain data' where r: "readServiceInstance (inst\<lparr> SI_Id := Known ?id \<rparr>) (Inr observed) = Inr data'"
    by blast
  from readServiceInstance_Id [OF r] have "SI_Id data' = Known ?id"
    by simp
  with r have si: "map_option SI_Id (State (ServiceInstance_Create inst None None (Inr observed)))
       = Some (Known ?id)"
    by (simp add: ServiceInstance_Create_def Let_def)
  have sl: "map_option SL_Id (State (ServiceLimits_Create limits None))
       = Some (Known (composite_id (ValueString (SL_ServiceId limits))
                                   (ValueString (SL_EnvironmentId limits))))"
    by (simp add: ServiceLimits_Create_def)
  from si sl composite_id_inject show ?thesis by blast
qed

theorem composite_identity_injective_without_delimiter_witness:
  "CHR '':'' \<notin> set ''5f0c1a52'' \<and> CHR '':'' \<notin> set ''5f0c1a52''
   \<and> composite_id ''5f0c1a52'' ''a1b2c3d4'' = composite_id ''5f0c1a52'' ''a1b2c3d4''
   \<and> map_option SL_Id (State (ServiceLimits_Create limits_example None))
       = Some (Known ''5f0c1a52-3b1e-4c8e-9d61-0a2b7c3d4e5f:a1b2c3d4-0000-4000-8000-123456789abc'')
   \<and> map_option SI_Id (State (ServiceInstance_Create instance_example None None (Inr observed_instance)))
       = Some (Known ''5f0c1a52-3b1e-4c8e-9d61-0a2b7c3d4e5f:a1b2c3d4-0000-4000-8000-123456789abc'')"
  using composite_identity_injective_without_delimiter
          [of "''5f0c1a52''" "''5f0c1a52''" "''a1b2c3d4''" "''a1b2c3d4''"
              limits_example instance_example observed_instance]
  by (simp add: limits_example_def instance_example_def composite_id_def)

section \<open>Reading a vanished resource\<close>

text \<open>
  C3: when the listing of the environment's private networks succeeds and the stored id
  is not among the listed networks, Read of the private network removes the resource from
  state and adds no diagnostic; when the endpoint query succeeds with a nil endpoint, Read
  of the endpoint does the same.
\<close>

theorem Read_of_vanished_resource_removes_state:
  assumes "ValueString (PN_Id data) \<notin> NW_PublicId ` set networks"
  shows "State (PrivateNetwork_Read data (Inr networks)) = None
         \<and> Diagnostics (PrivateNetwork_Read data (Inr networks)) = []
         \<and> State (PrivateNetworkEndpoint_Read endpoint (Inr None)) = None
         \<and> Diagnostics (PrivateNetworkEndpoint_Read endpoint (Inr None)) = []"
proof -
  have "find (\<lambda>network. NW_PublicId network = ValueString (PN_Id data)) networks = None"
    using assms by (force simp: find_None_iff)
  then show ?thesis
    by (simp add: PrivateNetwork_Read_def PrivateNetworkEndpoint_Read_def)
qed

theorem Read_of_vanished_resource_removes_state_witness:
  "ValueString (PN_Id network_example)
     \<notin> NW_PublicId ` set [listed_network ''pn-7'' [], listed_network ''pn-9'' [''x'']]
   \<and> State (PrivateNetwork_Read network_example
              (Inr [listed_network ''pn-7'' [], listed_network ''pn-9'' [''x'']])) = None
   \<and> Diagnostics (PrivateNetwork_Read network_example
              (Inr [listed_network ''pn-7'' [], listed_network ''pn-9'' [''x'']])) = []
   \<and> State (PrivateNetworkEndpoint_Read endpoint_example (Inr None)) = None
   \<and> Diagnostics (PrivateNetworkEndpoint_Read endpoint_example (Inr None)) = []"
  using Read_of_vanished_resource_removes_state
          [of network_example "[listed_network ''pn-7'' [], listed_network ''pn-9'' [''x'']]"
              endpoint_example]
  by (simp add: network_example_def listed_network_def)

section \<open>Deletion\<close>

text \<open>
  C7, as stated, fails: Delete of the service limits and of the service instance does not
  fail. On the example configurations it returns without an error diagnostic.
\<close>

theorem Delete_without_remote_operation_counterexample:
  "\<not> HasError (Diagnostics (ServiceLimits_Delete limits_example))
   \<and> \<not> HasError (Diagnostics (ServiceInstance_Delete instance_example))"
  by (simp add: ServiceLimits_Delete_def ServiceInstance_Delete_def)

text \<open>
  C7, amended: for the kinds with no remote deletion operation (service limits, service
  instance) Delete is a no-op that succeeds: for every prior state it issues no remote
  call, adds no diagnostic and does not touch the state of the response.
\<close>

theorem Delete_without_remote_operation_is_noop:
  "ServiceLimits_Delete prior = \<lparr> Diagnostics = [], State = Some prior, Calls = [] \<rparr>
   \<and> ServiceInstance_Delete prior' = \<lparr> Diagnostics = [], State = Some prior', Calls = [] \<rparr>"
  by (simp add: ServiceLimits_Delete_def ServiceInstance_Delete_def)

text \<open>
  C8: Delete of a private network issues exactly one remote call, the deletion of all
  private networks of the state's environment; the call is built from \<open>environment_id\<close>
  alone, so two states of the same environment issue the same call whatever their ids.
\<close>

theorem PrivateNetwork_Delete_is_environment_scoped:
  "Calls (PrivateNetwork_Delete data err)
     = [DeletePrivateNetworksForEnvironment (ValueString (PN_EnvironmentId data))]
   \<and> (PN_EnvironmentId data = PN_EnvironmentId data'
        \<longrightarrow> Calls (PrivateNetwork_Delete data err) = Calls (PrivateNetwork_Delete data' err'))"
  by (simp add: PrivateNetwork_Delete_def Let_def split: option.splits)

theorem PrivateNetwork_Delete_is_environment_scoped_witness:
  "PN_EnvironmentId network_example = PN_EnvironmentId (network_example\<lparr> PN_Id := Known ''pn-2'' \<rparr>)
   \<and> PN_Id network_example \<noteq> PN_Id (network_example\<lparr> PN_Id := Known ''pn-2'' \<rparr>)
   \<and> Calls (PrivateNetwork_Delete network_example None)
      = Calls (PrivateNetwork_Delete (network_example\<lparr> PN_Id := Known ''pn-2'' \<rparr>) None)"
proof -
  have same_env: "PN_EnvironmentId network_example
                  = PN_EnvironmentId (network_example\<lparr> PN_Id := Known ''pn-2'' \<rparr>)"
    by simp
  have other_id: "PN_Id network_example \<noteq> PN_Id (network_example\<lparr> PN_Id := Known ''pn-2'' \<rparr>)"
    by (simp add: network_example_def)
  from PrivateNetwork_Delete_is_environment_scoped
         [of network_example None "network_example\<lparr> PN_Id := Known ''pn-2'' \<rparr>" None]
       same_env
  have "Calls (PrivateNetwork_Delete network_example None)
        = Calls (PrivateNetwork_Delete (network_example\<lparr> PN_Id := Known ''pn-2'' \<rparr>) None)"
    by blast
  with same_env other_id show ?thesis by blast
qed

section \<open>Immutable attributes of the private network\<close>

text \<open>
  The three required attributes carry \<open>RequiresReplace\<close>, and Update never succeeds: for
  every plan and prior state it adds the error, issues no remote call and leaves the
  state of the response as the prior state.
\<close>

lemma PrivateNetwork_required_attributes_require_replace:
  "map_option requires_replace (map_of PrivateNetwork_Schema ''name'') = Some True
   \<and> map_option requires_replace (map_of PrivateNetwork_Schema ''project_id'') = Some True
   \<and> map_option requires_replace (map_of PrivateNetwork_Schema ''environment_id'') = Some True"
  by (simp add: PrivateNetwork_Schema_def requires_replace_def)

lemma PrivateNetwork_Update_never_succeeds:
  "HasError (Diagnostics (PrivateNetwork_Update plan prior))
   \<and> State (PrivateNetwork_Update plan prior) = Some prior
   \<and> Calls (PrivateNetwork_Update plan prior) = []"
  by (simp add: PrivateNetwork_Update_def)

text \<open>
  C2: not every configurable attribute of the private network carries \<open>RequiresReplace\<close>.
  \<open>tags\<close> is optional, hence configurable, and has no plan modifier, although the comment
  of Update says the immutability is enforced by \<open>RequiresReplace\<close> on all configurable
  fields. A plan that differs from the prior state in \<open>tags\<close> alone is therefore not
  planned as a replacement; it is handed to Update, which answers with the error
  "Update Not Supported" and keeps the prior state.
\<close>

theorem PrivateNetwork_tags_change_fails_in_Update:
  "map_option configurable (map_of PrivateNetwork_Schema ''tags'') = Some True
   \<and> map_option requires_replace (map_of PrivateNetwork_Schema ''tags'') = Some False
   \<and> PrivateNetwork_Update (network_example\<lparr> PN_Tags := Known [''staging''] \<rparr>) network_example
     = \<lparr> Diagnostics = [ErrorDiagnostic ''Update Not Supported''
            ''Private networks cannot be updated. Changes require replacement.''],
         State = Some network_example, Calls = [] \<rparr>"
  by (simp add: PrivateNetwork_Schema_def configurable_def requires_replace_def
        PrivateNetwork_Update_def)

section \<open>Write-only attributes\<close>

text \<open>
  C4: Read of the service limits issues no remote call, adds no diagnostic and returns the
  prior state as it is, \<open>memory_gb\<close> and \<open>vcpus\<close> included; and whatever the remote
  observation, \<open>readServiceInstance\<close> returns a model whose \<open>pre_deploy_command\<close> is the one
  it was given, for every configured (null or known) value, and so does the state that
  Read of the service instance writes.
\<close>

theorem write_only_attributes_carried_forward:
  "ServiceLimits_Read prior = \<lparr> Diagnostics = [], State = Some prior, Calls = [] \<rparr>
   \<and> (\<not> IsUnknown (SI_PreDeployCommand data)
        \<longrightarrow> (\<exists>data'. readServiceInstance data (Inr observed) = Inr data'
                     \<and> SI_PreDeployCommand data' = SI_PreDeployCommand data)
          \<and> map_option SI_PreDeployCommand (State (ServiceInstance_Read data (Inr observed)))
              = Some (SI_PreDeployCommand data))"
proof -
  have limits: "ServiceLimits_Read prior = \<lparr> Diagnostics = [], State = Some prior, Calls = [] \<rparr>"
    by (simp add: ServiceLimits_Read_def)
  have read_keeps: "\<exists>data'. readServiceInstance data (Inr observed) = Inr data'
                     \<and> SI_PreDeployCommand data' = SI_PreDeployCommand data"
    if "\<not> IsUnknown (SI_PreDeployCommand data)"
    using that by (simp add: readServiceInstance_def Let_def split: option.splits)
  have "map_option SI_PreDeployCommand (State (ServiceInstance_Read data (Inr observed)))
          = Some (SI_PreDeployCommand data)"
    if known: "\<not> IsUnknown (SI_PreDeployCommand data)"
  proof -
    from read_keeps [OF known] obtain data' where
      "readServiceInstance data (Inr observed) = Inr data'"
      "SI_PreDeployCommand data' = SI_PreDeployCommand data"
      by blast
    then show ?thesis
      by (simp add: ServiceInstance_Read_def)
  qed
  with limits read_keeps show ?thesis
    by simp
qed

theorem write_only_attributes_carried_forward_witness:
  "\<not> IsUnknown (SI_PreDeployCommand instance_example)
   \<and> (\<exists>data'. readServiceInstance instance_example (Inr observed_instance) = Inr data'
              \<and> SI_PreDeployCommand data' = Known [''npm run db:migrate''])
   \<and> map_option SI_PreDeployCommand
         (State (ServiceInstance_Read instance_example (Inr observed_instance)))
       = Some (Known [''npm run db:migrate''])
   \<and> State (ServiceLimits_Read limits_example) = Some limits_example"
  using write_only_attributes_carried_forward [of limits_example instance_example observed_instance]
  by (simp add: instance_example_def)

section \<open>Update payloads\<close>

text \<open>
  A field of the payload is nil exactly when the model value it is built from is null
  (the source when image and repo are both null, the registry credentials when the user
  or the password is null), and a known limit is sent as it is.
\<close>

lemma buildLimitsInput_nil_iff_null:
  "(LI_MemoryGB (buildLimitsInput data) = None) = IsNull (SL_MemoryGB data)
   \<and> (LI_VCPUs (buildLimitsInput data) = None) = IsNull (SL_VCPUs data)
   \<and> (SL_MemoryGB data = Known m \<longrightarrow> LI_MemoryGB (buildLimitsInput data) = Some m)
   \<and> (SL_VCPUs data = Known v \<longrightarrow> LI_VCPUs (buildLimitsInput data) = Some v)"
  by (simp add: buildLimitsInput_def)

lemma ValueStringPointer_None: "(ValueStringPointer v = None) = IsNull v"
  by (cases v) simp_all

lemma ValueBoolPointer_None: "(ValueBoolPointer v = None) = IsNull v"
  by (cases v) simp_all

lemma buildUpdateInput_nil_iff_null:
  "(UI_Source (buildUpdateInput data) = None)
     = (IsNull (SI_SourceImage data) \<and> IsNull (SI_SourceRepo data))
   \<and> (UI_RegistryCredentials (buildUpdateInput data) = None)
     = (IsNull (SI_RegistryCredentialsUser data) \<or> IsNull (SI_RegistryCredentialsPass data))
   \<and> (UI_Builder (buildUpdateInput data) = None) = IsNull (SI_Builder data)
   \<and> (UI_BuildCommand (buildUpdateInput data) = None) = IsNull (SI_BuildCommand data)
   \<and> (UI_StartCommand (buildUpdateInput data) = None) = IsNull (SI_StartCommand data)
   \<and> (UI_PreDeployCommand (buildUpdateInput data) = None) = IsNull (SI_PreDeployCommand data)
   \<and> (UI_HealthcheckPath (buildUpdateInput data) = None) = IsNull (SI_HealthcheckPath data)
   \<and> (UI_HealthcheckTimeout (buildUpdateInput data) = None) = IsNull (SI_HealthcheckTimeout data)
   \<and> (UI_RestartPolicyType (buildUpdateInput data) = None) = IsNull (SI_RestartPolicyType data)
   \<and> (UI_RestartPolicyMaxRetries (buildUpdateInput data) = None)
     = IsNull (SI_RestartPolicyMaxRetries data)
   \<and> (UI_SleepApplication (buildUpdateInput data) = None) = IsNull (SI_SleepApplication data)"
  by (simp add: buildUpdateInput_def ValueStringPointer_None ValueBoolPointer_None)

text \<open>
  C5: the payload does not hold exactly the attributes the caller supplied.
  \<open>buildUpdateInput\<close> asks only whether a value is null. The example configuration sets
  neither \<open>builder\<close> nor the restart policy, so the plan holds them as unknown, which is
  not null: the payload then carries \<open>builder = ""\<close>, \<open>restartPolicyType = ""\<close> and
  \<open>restartPolicyMaxRetries = 0\<close>, the zero values of their Go types.
\<close>

theorem buildUpdateInput_sends_zero_for_unknown:
  "IsUnknown (SI_Builder instance_example)
   \<and> IsUnknown (SI_RestartPolicyType instance_example)
   \<and> IsUnknown (SI_RestartPolicyMaxRetries instance_example)
   \<and> UI_Builder (buildUpdateInput instance_example) = Some ''''
   \<and> UI_RestartPolicyType (buildUpdateInput instance_example) = Some ''''
   \<and> UI_RestartPolicyMaxRetries (buildUpdateInput instance_example) = Some 0"
  by (simp add: buildUpdateInput_def instance_example_def)

theorem buildUpdateInput_sends_zero_for_unknown_witness:
  "\<not> IsNull (SI_Builder instance_example)
   \<and> \<not> IsNull (SI_SourceImage instance_example)
   \<and> UI_Builder (buildUpdateInput instance_example) = Some []
   \<and> UI_RestartPolicyMaxRetries (buildUpdateInput instance_example) = Some 0"
  using buildUpdateInput_sends_zero_for_unknown
  by (simp add: instance_example_def)

section \<open>Faults of the remote API\<close>

lemma readServiceInstance_Inl: "readServiceInstance data (Inl e) = Inl e"
  by (simp add: readServiceInstance_def)

lemma ServiceInstance_Create_fault:
  assumes "update_err \<noteq> None \<or> (ValueBool (SI_Redeploy inst) \<and> redeploy_err \<noteq> None)
           \<or> isl read_result"
  shows "HasError (Diagnostics (ServiceInstance_Create inst update_err redeploy_err read_result))
         \<and> State (ServiceInstance_Create inst update_err redeploy_err read_result) = None"
proof (cases update_err)
  case (Some e)
  then show ?thesis by (simp add: ServiceInstance_Create_def Let_def)
next
  case None
  note upd = this
  show ?thesis
  proof (cases "ValueBool (SI_Redeploy inst) \<and> redeploy_err \<noteq> None")
    case True
    then obtain e where "redeploy_err = Some e" by blast
    with True upd show ?thesis by (simp add: ServiceInstance_Create_def Let_def)
  next
    case False
    with upd assms obtain e where rr: "read_result = Inl e"
      by (cases read_result) auto
    from False have "(if ValueBool (SI_Redeploy inst) then redeploy_err else None) = None"
      by auto
    with upd rr show ?thesis
      by (simp add: ServiceInstance_Create_def readServiceInstance_Inl Let_def)
  qed
qed

lemma ServiceInstance_Update_fault:
  assumes "update_err \<noteq> None \<or> (ValueBool (SI_Redeploy inst) \<and> redeploy_err \<noteq> None)
           \<or> isl read_result"
  shows "HasError (Diagnostics (ServiceInstance_Update inst prior update_err redeploy_err read_result))
         \<and> State (ServiceInstance_Update inst prior update_err redeploy_err read_result) = Some prior"
proof (cases update_err)
  case (Some e)
  then show ?thesis by (simp add: ServiceInstance_Update_def Let_def)
next
  case None
  note upd = this
  show ?thesis
  proof (cases "ValueBool (SI_Redeploy inst) \<and> redeploy_err \<noteq> None")
    case True
    then obtain e where "redeploy_err = Some e" by blast
    with True upd show ?thesis by (simp add: ServiceInstance_Update_def Let_def)
  next
    case False
    with upd assms obtain e where rr: "read_result = Inl e"
      by (cases read_result) auto
    from False have "(if ValueBool (SI_Redeploy inst) then redeploy_err else None) = None"
      by auto
    with upd rr show ?thesis
      by (simp add: ServiceInstance_Update_def readServiceInstance_Inl Let_def)
  qed
qed

text \<open>
  C6: whenever a remote call of Create, Update or Delete returns an error, the operation
  adds an error diagnostic and the state of the response is what the framework handed
  over: null for Create, the prior state for Update and Delete (which the framework
  drops only when Delete returns without an error). For the service instance the fault
  may be in the update, in the redeploy (when \<open>redeploy\<close> is set) or in the read-back.
\<close>

theorem remote_fault_leaves_state_as_before:
  "(update_err \<noteq> None \<or> (ValueBool (SI_Redeploy inst) \<and> redeploy_err \<noteq> None) \<or> isl read_result
      \<longrightarrow> HasError (Diagnostics (ServiceInstance_Create inst update_err redeploy_err read_result))
          \<and> State (ServiceInstance_Create inst update_err redeploy_err read_result) = None
          \<and> HasError (Diagnostics (ServiceInstance_Update inst inst_prior update_err redeploy_err read_result))
          \<and> State (ServiceInstance_Update inst inst_prior update_err redeploy_err read_result)
              = Some inst_prior)
   \<and> HasError (Diagnostics (PrivateNetwork_Create net (Inl e)))
   \<and> State (PrivateNetwork_Create net (Inl e)) = None
   \<and> HasError (Diagnostics (PrivateNetwork_Delete net (Some e)))
   \<and> State (PrivateNetwork_Delete net (Some e)) = Some net
   \<and> HasError (Diagnostics (PrivateNetworkEndpoint_Create ep (Inl e)))
   \<and> State (PrivateNetworkEndpoint_Create ep (Inl e)) = None
   \<and> HasError (Diagnostics (PrivateNetworkEndpoint_Delete ep (Some e)))
   \<and> State (PrivateNetworkEndpoint_Delete ep (Some e)) = Some ep
   \<and> HasError (Diagnostics (ServiceLimits_Create limits (Some e)))
   \<and> State (ServiceLimits_Create limits (Some e)) = None
   \<and> HasError (Diagnostics (ServiceLimits_Update limits limits_prior (Some e)))
   \<and> State (ServiceLimits_Update limits limits_prior (Some e)) = Some limits_prior"
proof -
  have pn: "HasError (Diagnostics (PrivateNetwork_Create net (Inl e)))
            \<and> State (PrivateNetwork_Create net (Inl e)) = None"
    by (cases "PN_Tags net") (simp_all add: PrivateNetwork_Create_def)
  have pe: "HasError (Diagnostics (PrivateNetworkEndpoint_Create ep (Inl e)))
            \<and> State (PrivateNetworkEndpoint_Create ep (Inl e)) = None"
    by (cases "PE_Tags ep") (simp_all add: PrivateNetworkEndpoint_Create_def)
  have del: "HasError (Diagnostics (PrivateNetwork_Delete net (Some e)))
             \<and> State (PrivateNetwork_Delete net (Some e)) = Some net
             \<and> HasError (Diagnostics (PrivateNetworkEndpoint_Delete ep (Some e)))
             \<and> State (PrivateNetworkEndpoint_Delete ep (Some e)) = Some ep"
    by (simp add: PrivateNetwork_Delete_def PrivateNetworkEndpoint_Delete_def)
  have sl: "HasError (Diagnostics (ServiceLimits_Create limits (Some e)))
            \<and> State (ServiceLimits_Create limits (Some e)) = None
            \<and> HasError (Diagnostics (ServiceLimits_Update limits limits_prior (Some e)))
            \<and> State (ServiceLimits_Update limits limits_prior (Some e)) = Some limits_prior"
    by (simp add: ServiceLimits_Create_def ServiceLimits_Update_def)
  have si: "update_err \<noteq> None \<or> (ValueBool (SI_Redeploy inst) \<and> redeploy_err \<noteq> None)
              \<or> isl read_result
      \<longrightarrow> HasError (Diagnostics (ServiceInstance_Create inst update_err redeploy_err read_result))
          \<and> State (ServiceInstance_Create inst update_err redeploy_err read_result) = None
          \<and> HasError (Diagnostics (ServiceInstance_Update inst inst_prior update_err redeploy_err read_result))
          \<and> State (ServiceInstance_Update inst inst_prior update_err redeploy_err read_result)
              = Some inst_prior"
  proof
    assume fault: "update_err \<noteq> None \<or> (ValueBool (SI_Redeploy inst) \<and> redeploy_err \<noteq> None)
                   \<or> isl read_result"
    from ServiceInstance_Create_fault [OF fault] ServiceInstance_Update_fault [OF fault]
    show "HasError (Diagnostics (ServiceInstance_Create inst update_err redeploy_err read_result))
          \<and> State (ServiceInstance_Create inst update_err redeploy_err read_result) = None
          \<and> HasError (Diagnostics (ServiceInstance_Update inst inst_prior update_err redeploy_err read_result))
          \<and> State (ServiceInstance_Update inst inst_prior update_err redeploy_err read_result)
              = Some inst_prior"
      by simp
  qed
  show ?thesis
    apply (rule conjI)
     apply (rule si)
    apply (simp only: pn pe del sl simp_thms)
    done
qed

theorem remote_fault_leaves_state_as_before_witness:
  "ValueBool (SI_Redeploy instance_example)
   \<and> HasError (Diagnostics (ServiceInstance_Create instance_example None (Some ''timeout'')
                               (Inr observed_instance)))
   \<and> State (ServiceInstance_Create instance_example None (Some ''timeout'')
              (Inr observed_instance)) = None
   \<and> State (ServiceInstance_Update instance_example (instance_example\<lparr> SI_Redeploy := Known False \<rparr>)
              None (Some ''timeout'') (Inr observed_instance))
       = Some (instance_example\<lparr> SI_Redeploy := Known False \<rparr>)
   \<and> State (ServiceLimits_Update limits_example (limits_example\<lparr> SL_VCPUs := Known 0 \<rparr>)
              (Some ''timeout''))
       = Some (limits_example\<lparr> SL_VCPUs := Known 0 \<rparr>)
   \<and> State (PrivateNetwork_Create network_example (Inl ''timeout'')) = None"
proof -
  have redeploy: "ValueBool (SI_Redeploy instance_example)"
    by (simp add: instance_example_def)
  from remote_fault_leaves_state_as_before
         [of None instance_example "Some ''timeout''" "Inr observed_instance"
             "instance_example\<lparr> SI_Redeploy := Known False \<rparr>" network_example "''timeout''"
             endpoint_example limits_example "limits_example\<lparr> SL_VCPUs := Known 0 \<rparr>"]
       redeploy
  show ?thesis by simp
qed

section \<open>Tags of the private network\<close>

text \<open>
  C10: an observation with no tags leaves the held tags as they are. When Create gets
  through to the remote call (the planned tags convert) and the network answered has an
  empty tag list, the state written holds the planned tags; when Read finds the network
  with an empty tag list, the state written holds the tags of the prior state.
\<close>

theorem empty_observed_tags_keep_held_tags:
  "(\<not> IsUnknown (PN_Tags data) \<and> NW_Tags created = []
      \<longrightarrow> (\<exists>data'. State (PrivateNetwork_Create data (Inr created)) = Some data'
                   \<and> PN_Tags data' = PN_Tags data))
   \<and> (find (\<lambda>network. NW_PublicId network = ValueString (PN_Id data)) networks = Some observed
        \<and> NW_Tags observed = []
      \<longrightarrow> (\<exists>data'. State (PrivateNetwork_Read data (Inr networks)) = Some data'
                   \<and> PN_Tags data' = PN_Tags data))"
  by (cases "PN_Tags data") (simp_all add: PrivateNetwork_Create_def PrivateNetwork_Read_def)

theorem empty_observed_tags_keep_held_tags_witness:
  "\<not> IsUnknown (PN_Tags network_example) \<and> NW_Tags (listed_network ''pn-1'' []) = []
   \<and> find (\<lambda>network. NW_PublicId network = ValueString (PN_Id network_example))
        [listed_network ''pn-7'' [''x''], listed_network ''pn-1'' []]
      = Some (listed_network ''pn-1'' [])
   \<and> (\<exists>data'. State (PrivateNetwork_Create network_example (Inr (listed_network ''pn-1'' [])))
                 = Some data'
              \<and> PN_Tags data' = Known [''production'', ''internal''])
   \<and> (\<exists>data'. State (PrivateNetwork_Read network_example
                        (Inr [listed_network ''pn-7'' [''x''], listed_network ''pn-1'' []]))
                 = Some data'
              \<and> PN_Tags data' = Known [''production'', ''internal''])"
proof -
  have held: "\<not> IsUnknown (PN_Tags network_example)"
    and tags: "PN_Tags network_example = Known [''production'', ''internal'']"
    by (simp_all add: network_example_def)
  have empty: "NW_Tags (listed_network ''pn-1'' []) = []"
    by (simp add: listed_network_def)
  have found: "find (\<lambda>network. NW_PublicId network = ValueString (PN_Id network_example))
                 [listed_network ''pn-7'' [''x''], listed_network ''pn-1'' []]
               = Some (listed_network ''pn-1'' [])"
    by (simp add: network_example_def listed_network_def)
  from empty_observed_tags_keep_held_tags
         [of network_example "listed_network ''pn-1'' []"
             "[listed_network ''pn-7'' [''x''], listed_network ''pn-1'' []]"
             "listed_network ''pn-1'' []"]
       held empty found tags
  show ?thesis by simp
qed

end
